theory Spec2Isabelle
  imports Main
begin

section \<open>Values, dictionaries and errors\<close>

text \<open>
  The forms of \<^verbatim>\<open>apps/users/forms.py\<close> run under Python 2 and Django: every text value
  of \<^verbatim>\<open>cleaned_data\<close> is a \<^verbatim>\<open>unicode\<close> object, a sequence of code points. Code points
  are natural numbers here; the fixed messages and paths of the module are ASCII literals
  and stay \<open>string\<close>s.
\<close>

type_synonym unicode = "nat list"

text \<open>
  An uploaded file as the code reads it: \<^verbatim>\<open>photo.content_type\<close>, \<^verbatim>\<open>photo.size\<close> and
  \<^verbatim>\<open>photo.chunks()\<close>. Its truth value is Django's \<^verbatim>\<open>File.__nonzero__\<close>, the truth value
  of its name (\<open>file_name\<close>).
\<close>

record uploaded_file =
  file_name :: unicode
  content_type :: string
  size_attr :: int
  chunks :: "string list"

datatype pyval = PNone | PBool bool | PStr unicode | PFile uploaded_file

fun truthy :: "pyval \<Rightarrow> bool" where
  "truthy PNone = False"
| "truthy (PBool b) = b"
| "truthy (PStr s) = (s \<noteq> [])"
| "truthy (PFile f) = (file_name f \<noteq> [])"

datatype error =
    ValidationError string
  | KeyError string
  | AttributeError string

type_synonym cleaned_data = "string \<rightharpoonup> pyval"
type_synonym error_dict = "string \<rightharpoonup> string list"

text \<open>\<^verbatim>\<open>data.get(k)\<close>: the value, or \<^verbatim>\<open>None\<close> for a missing key.\<close>

definition dict_get :: "cleaned_data \<Rightarrow> string \<Rightarrow> pyval" where
  "dict_get data k = (case data k of None \<Rightarrow> PNone | Some v \<Rightarrow> v)"

text \<open>\<^verbatim>\<open>del d[k]\<close>: raises \<^verbatim>\<open>KeyError\<close> for a missing key.\<close>

definition dict_del :: "(string \<rightharpoonup> 'v) \<Rightarrow> string \<Rightarrow> error + (string \<rightharpoonup> 'v)" where
  "dict_del d k = (case d k of None \<Rightarrow> Inl (KeyError k) | Some _ \<Rightarrow> Inr (d(k := None)))"

text \<open>
  The part of a form that the \<^verbatim>\<open>clean\<close> methods mutate: \<^verbatim>\<open>self._errors\<close> and
  \<^verbatim>\<open>self.cleaned_data\<close>.
\<close>

record form_state =
  errors :: error_dict
  cleaned_data :: cleaned_data

text \<open>
  The profile (\<^verbatim>\<open>UserProfile\<close> of \<^verbatim>\<open>models.py\<close>) as far as this module reads and writes
  it. \<^verbatim>\<open>picture_dir\<close> and \<^verbatim>\<open>picture_path\<close> are read-only properties of the model.
\<close>

record profile =
  password :: string
  picture_type :: string
  picture_dir :: string
  picture_path :: string
  is_developer :: bool

datatype level = Debug | Info | Warning

text \<open>
  The effects of the module, in the order they happen. \<open>TaskWait\<close> stands for waiting on
  the result of an enqueued task (\<^verbatim>\<open>AsyncResult.get\<close>/\<^verbatim>\<open>wait\<close>); it belongs to the task
  queue's interface and no function of this module issues it.
\<close>

datatype event =
    Log level string
  | Makedirs string
  | Open string string
  | Write string
  | Close
  | Delay string string
  | TaskWait
  | DbSave profile

section \<open>UserDeleteForm\<close>

text \<open>
  \<^verbatim>\<open>clean_password\<close>: \<open>check_password\<close> is \<^verbatim>\<open>amouser.check_password\<close> of the requesting
  account. The method has no \<^verbatim>\<open>return\<close>, so a matching password yields \<^verbatim>\<open>None\<close>.
\<close>

definition UserDeleteForm_clean_password ::
    "(pyval \<Rightarrow> bool) \<Rightarrow> cleaned_data \<Rightarrow> error + pyval" where
  "UserDeleteForm_clean_password check_password data =
     (case data ''password'' of
        None \<Rightarrow> Inl (KeyError ''password'')
      | Some p \<Rightarrow>
          if \<not> check_password p
          then Inl (ValidationError ''Wrong password entered!'')
          else Inr PNone)"

text \<open>
  \<^verbatim>\<open>clean\<close>: \<open>user\<close> is the text of \<^verbatim>\<open>self.request.user\<close> that the log line formats with
  \<^verbatim>\<open>%s\<close>. The result pairs the log lines written with the outcome; the submitted data
  is not read.
\<close>

definition UserDeleteForm_clean ::
    "profile \<Rightarrow> string \<Rightarrow> cleaned_data \<Rightarrow> event list \<times> (error + pyval)" where
  "UserDeleteForm_clean amouser user data =
     (if is_developer amouser
      then ([Log Warning (''[Tampering] Attempt to delete developer account ('' @ user @ '')'')],
            Inl (ValidationError ''''))
      else ([], Inr PNone))"

section \<open>UserRegisterForm\<close>

text \<open>
  \<^verbatim>\<open>clean_username\<close>: \<open>blocked\<close> is \<^verbatim>\<open>BlacklistedUsername.blocked\<close> of \<^verbatim>\<open>models.py\<close>.
\<close>

definition UserRegisterForm_clean_username ::
    "(pyval \<Rightarrow> bool) \<Rightarrow> cleaned_data \<Rightarrow> error + pyval" where
  "UserRegisterForm_clean_username blocked data =
     (case data ''username'' of
        None \<Rightarrow> Inl (KeyError ''username'')
      | Some name \<Rightarrow>
          if blocked name
          then Inl (ValidationError ''This username is invalid.'')
          else Inr name)"

text \<open>
  \<^verbatim>\<open>clean\<close>: the framework's \<^verbatim>\<open>clean\<close> called first leaves errors and data as they are.
  \<^verbatim>\<open>del data['password2']\<close> runs only for a true \<open>p2\<close>, which a missing key never gives.
\<close>

definition UserRegisterForm_clean :: "form_state \<Rightarrow> form_state" where
  "UserRegisterForm_clean st =
     (let data = cleaned_data st;
          p1 = dict_get data ''password'';
          p2 = dict_get data ''password2''
      in if p1 \<noteq> p2
         then st\<lparr>errors := (errors st)(''password2'' \<mapsto> [''The passwords did not match.'']),
                 cleaned_data := (if truthy p2 then data(''password2'' := None) else data)\<rparr>
         else st)"

section \<open>UserEditForm\<close>

text \<open>
  \<^verbatim>\<open>clean\<close>: \<^verbatim>\<open>data["oldpassword"]\<close> raises \<^verbatim>\<open>KeyError\<close> when the key is missing. A wrong
  old password is recorded as the error of the field \<^verbatim>\<open>oldpassword\<close> and the key is
  deleted; then the inherited \<^verbatim>\<open>clean\<close> of the registration form runs.
\<close>

definition UserEditForm_clean ::
    "(pyval \<Rightarrow> bool) \<Rightarrow> form_state \<Rightarrow> error + form_state" where
  "UserEditForm_clean check_password st =
     (let data = cleaned_data st;
          p1 = dict_get data ''password'';
          p2 = dict_get data ''password2''
      in if truthy p1 \<or> truthy p2
         then (case data ''oldpassword'' of
                 None \<Rightarrow> Inl (KeyError ''oldpassword'')
               | Some old \<Rightarrow>
                   if \<not> check_password old
                   then Inr (UserRegisterForm_clean
                          (st\<lparr>errors := (errors st)(''oldpassword'' \<mapsto> [''Wrong password entered!'']),
                              cleaned_data := data(''oldpassword'' := None)\<rparr>))
                   else Inr (UserRegisterForm_clean st))
         else Inr (UserRegisterForm_clean st))"

text \<open>
  Python's \<^verbatim>\<open>'%d' % n\<close> for an integer: decimal digits, with a minus sign below zero.
\<close>

fun str_nat :: "nat \<Rightarrow> string" where
  "str_nat n =
     (if n < 10 then [char_of (48 + n)]
      else str_nat (n div 10) @ [char_of (48 + n mod 10)])"

declare str_nat.simps [simp del]

definition str_int :: "int \<Rightarrow> string" where
  "str_int i = (if i < 0 then ''-'' @ str_nat (nat (- i)) else str_nat (nat i))"

text \<open>
  \<^verbatim>\<open>clean_photo\<close>: \<open>max_size\<close> is \<^verbatim>\<open>settings.MAX_PHOTO_UPLOAD_SIZE\<close>, an integer, so that
  Python 2's \<^verbatim>\<open>/\<close> is floor division. A false \<open>photo\<close> returns \<^verbatim>\<open>None\<close>; a true value
  that is no file has no \<^verbatim>\<open>content_type\<close>.
\<close>

definition UserEditForm_clean_photo :: "int \<Rightarrow> cleaned_data \<Rightarrow> error + pyval" where
  "UserEditForm_clean_photo max_size data =
     (case data ''photo'' of
        None \<Rightarrow> Inl (KeyError ''photo'')
      | Some photo \<Rightarrow>
          if \<not> truthy photo then Inr PNone
          else (case photo of
                  PFile f \<Rightarrow>
                    if content_type f \<notin> {''image/png'', ''image/jpeg''}
                    then Inl (ValidationError ''Images must be either PNG or JPG.'')
                    else if size_attr f > max_size
                    then Inl (ValidationError
                           (''Please use images smaller than ''
                             @ str_int (max_size div 1024 div 1024 - 1) @ ''MB.''))
                    else Inr photo
                | _ \<Rightarrow> Inl (AttributeError ''content_type'')))"

text \<open>
  Modelled from the spec: \<^verbatim>\<open>UserProfile.set_password\<close> lives in \<^verbatim>\<open>models.py\<close>, which is
  not part of the sources; the spec names it the profile's password-set operation. It
  stores the digest of the raw password (\<open>make_hash\<close>) in the profile's password field.
\<close>

definition set_password :: "(pyval \<Rightarrow> string) \<Rightarrow> profile \<Rightarrow> pyval \<Rightarrow> profile" where
  "set_password make_hash u raw = u\<lparr>password := make_hash raw\<rparr>"

text \<open>
  The photo branch of \<^verbatim>\<open>save\<close>. \<open>dir_exists\<close> is the answer of
  \<^verbatim>\<open>os.path.exists(u.picture_dir)\<close>. The file is opened before \<^verbatim>\<open>photo.chunks()\<close> is
  looked up, so a true value that is no file fails after \<open>Open\<close>.
\<close>

definition save_photo :: "bool \<Rightarrow> profile \<Rightarrow> pyval \<Rightarrow> event list \<times> (error + profile)" where
  "save_photo dir_exists u photo =
     (let u1 = u\<lparr>picture_type := ''image/png''\<rparr>;
          tmp_destination = picture_path u1 @ ''__unconverted'';
          opened = (if \<not> dir_exists then [Makedirs (picture_dir u1)] else [])
                     @ [Open tmp_destination ''w'']
      in case photo of
           PFile f \<Rightarrow>
             (opened @ map Write (chunks f)
                @ [Close, Delay tmp_destination (picture_path u1)], Inr u1)
         | _ \<Rightarrow> (opened, Inl (AttributeError ''chunks'')))"

text \<open>
  \<^verbatim>\<open>save\<close>: \<open>u\<close> is the instance that the framework's \<^verbatim>\<open>save(commit=False)\<close> hands back
  and \<open>show_profile\<close> its text in the log lines. The result pairs the effects, in order,
  with the outcome.
\<close>

definition UserEditForm_save ::
    "(pyval \<Rightarrow> string) \<Rightarrow> (profile \<Rightarrow> string) \<Rightarrow> bool \<Rightarrow> profile \<Rightarrow> cleaned_data
       \<Rightarrow> event list \<times> (error + profile)" where
  "UserEditForm_save make_hash show_profile dir_exists u data =
     (case data ''photo'' of
        None \<Rightarrow> ([], Inl (KeyError ''photo''))
      | Some photo \<Rightarrow>
          (case (if truthy photo then save_photo dir_exists u photo else ([], Inr u)) of
             (tr1, Inl e) \<Rightarrow> (tr1, Inl e)
           | (tr1, Inr u1) \<Rightarrow>
               (case data ''password'' of
                  None \<Rightarrow> (tr1, Inl (KeyError ''password''))
                | Some pw \<Rightarrow>
                    (let (tr2, u2) =
                           (if truthy pw
                            then (let u' = set_password make_hash u1 pw
                                  in ([Log Info (''User ('' @ show_profile u'
                                                   @ '') changed their password'')], u'))
                            else ([], u1))
                     in (tr1 @ tr2
                           @ [Log Debug (''User ('' @ show_profile u2
                                           @ '') updated their profile''),
                              DbSave u2],
                         Inr u2)))))"

text \<open>
  The fields of a form, \<^verbatim>\<open>self.fields\<close>, by name. \<open>ModelField\<close> is a field that the
  framework derives from a column of \<^verbatim>\<open>UserProfile\<close>; a character field carries its
  \<^verbatim>\<open>max_length\<close> and \<^verbatim>\<open>required\<close>.
\<close>

datatype field =
    CharField nat bool
  | FileField bool
  | ReCaptchaField
  | ModelField

type_synonym fields = "string \<rightharpoonup> field"

text \<open>
  The fields each class starts from: the model's fields (\<open>model_fields\<close>, from
  \<^verbatim>\<open>models.py\<close>), overridden by the fields the class bodies declare. The edit form
  inherits the declarations of the registration form, excludes the model's
  \<^verbatim>\<open>password\<close> column and declares its own fields.
\<close>

definition UserRegisterForm_base_fields :: "fields \<Rightarrow> fields" where
  "UserRegisterForm_base_fields model_fields =
     model_fields ++
       [''password'' \<mapsto> CharField 255 True,
        ''password2'' \<mapsto> CharField 255 True,
        ''recaptcha'' \<mapsto> ReCaptchaField]"

definition UserEditForm_base_fields :: "fields \<Rightarrow> fields" where
  "UserEditForm_base_fields model_fields =
     UserRegisterForm_base_fields (model_fields(''password'' := None)) ++
       [''oldpassword'' \<mapsto> CharField 255 False,
        ''password'' \<mapsto> CharField 255 False,
        ''password2'' \<mapsto> CharField 255 False,
        ''photo'' \<mapsto> FileField False]"

text \<open>
  \<^verbatim>\<open>UserRegisterForm.__init__\<close> on the fields of the class under construction;
  \<open>private_key\<close> is \<^verbatim>\<open>settings.RECAPTCHA_PRIVATE_KEY\<close>.
\<close>

definition UserRegisterForm_init :: "pyval \<Rightarrow> fields \<Rightarrow> error + fields" where
  "UserRegisterForm_init private_key base_fields =
     (if \<not> truthy private_key then dict_del base_fields ''recaptcha''
      else Inr base_fields)"

text \<open>
  \<^verbatim>\<open>UserEditForm.__init__\<close>: the inherited constructor, then the removal of the field
  that \<^verbatim>\<open>self.fields.get('recaptcha')\<close> finds; a field object is always true.
\<close>

definition UserEditForm_init :: "pyval \<Rightarrow> fields \<Rightarrow> error + fields" where
  "UserEditForm_init private_key model_fields =
     (case UserRegisterForm_init private_key (UserEditForm_base_fields model_fields) of
        Inl e \<Rightarrow> Inl e
      | Inr fs \<Rightarrow>
          (case fs ''recaptcha'' of
             None \<Rightarrow> Inr fs
           | Some _ \<Rightarrow> dict_del fs ''recaptcha''))"

section \<open>BlacklistedUsernameAddForm\<close>

text \<open>
  The line boundaries of \<^verbatim>\<open>unicode.splitlines\<close> and the white space of
  \<^verbatim>\<open>unicode.strip\<close> in Python 2.7, as code points.
\<close>

definition is_linebreak :: "nat \<Rightarrow> bool" where
  "is_linebreak c =
     (c \<in> {0x0A, 0x0B, 0x0C, 0x0D, 0x1C, 0x1D, 0x1E, 0x85, 0x2028, 0x2029})"

definition is_space :: "nat \<Rightarrow> bool" where
  "is_space c =
     ((0x09 \<le> c \<and> c \<le> 0x0D) \<or> (0x1C \<le> c \<and> c \<le> 0x20)
      \<or> c \<in> {0x85, 0xA0, 0x1680, 0x180E, 0x2028, 0x2029, 0x202F, 0x205F, 0x3000}
      \<or> (0x2000 \<le> c \<and> c \<le> 0x200A))"

text \<open>
  \<^verbatim>\<open>s.splitlines()\<close>: find the end of the line, skip the line break (a carriage return
  followed by a line feed counts as one), add the line, go on behind the break. Nothing
  is added when the text ends right behind a break.
\<close>

function splitlines :: "unicode \<Rightarrow> unicode list" where
  "splitlines [] = []"
| "splitlines (c # s) =
     (let line = takeWhile (\<lambda>x. \<not> is_linebreak x) (c # s);
          rest = dropWhile (\<lambda>x. \<not> is_linebreak x) (c # s)
      in line #
           (case rest of
              [] \<Rightarrow> []
            | [b] \<Rightarrow> []
            | b # d # r \<Rightarrow>
                if b = 0x0D \<and> d = 0x0A then splitlines r else splitlines (d # r)))"
  by pat_completeness auto
termination
proof (relation "measure length")
  show "wf (measure length)" by simp
next
  fix c :: nat and s x xa x21 x22 x21a x22a
  assume "xa = dropWhile (\<lambda>x. \<not> is_linebreak x) (c # s)" "xa = x21 # x22" "x22 = x21a # x22a"
  then have "length (x21 # x21a # x22a) \<le> length (c # s)"
    by (metis length_dropWhile_le)
  then show "(x22a, c # s) \<in> measure length" by simp
next
  fix c :: nat and s x xa x21 x22 x21a x22a
  assume "xa = dropWhile (\<lambda>x. \<not> is_linebreak x) (c # s)" "xa = x21 # x22" "x22 = x21a # x22a"
  then have "length (x21 # x21a # x22a) \<le> length (c # s)"
    by (metis length_dropWhile_le)
  then show "(x21a # x22a, c # s) \<in> measure length" by simp
qed

declare splitlines.simps(2) [simp del]

text \<open>\<^verbatim>\<open>s.strip()\<close>: the text without its leading and trailing white space.\<close>

definition strip :: "unicode \<Rightarrow> unicode" where
  "strip s = rev (dropWhile is_space (rev (dropWhile is_space s)))"

text \<open>\<^verbatim>\<open>sep.join(lines)\<close>.\<close>

fun join :: "unicode \<Rightarrow> unicode list \<Rightarrow> unicode" where
  "join sep [] = []"
| "join sep [x] = x"
| "join sep (x # y # ys) = x @ sep @ join sep (y # ys)"

text \<open>\<^verbatim>\<open>os.linesep\<close>: a line feed on POSIX, carriage return and line feed on Windows.\<close>

datatype platform = Posix | Windows

fun linesep :: "platform \<Rightarrow> unicode" where
  "linesep Posix = [0x0A]"
| "linesep Windows = [0x0D, 0x0A]"

text \<open>
  The expression that \<^verbatim>\<open>clean\<close> stores back under \<^verbatim>\<open>usernames\<close>:
  \<^verbatim>\<open>os.linesep.join([s.strip() for s in text.splitlines() if s.strip()])\<close>.
\<close>

definition normalize_usernames :: "platform \<Rightarrow> unicode \<Rightarrow> unicode" where
  "normalize_usernames os usernames =
     join (linesep os)
       (map strip (filter (\<lambda>s. truthy (PStr (strip s))) (splitlines usernames)))"

text \<open>
  \<^verbatim>\<open>clean\<close>: the framework's \<^verbatim>\<open>clean\<close> called first leaves errors and data as they are.
  A value under \<^verbatim>\<open>usernames\<close> that is no text has no \<^verbatim>\<open>splitlines\<close>.
\<close>

definition BlacklistedUsernameAddForm_clean ::
    "platform \<Rightarrow> form_state \<Rightarrow> error + form_state" where
  "BlacklistedUsernameAddForm_clean os st =
     (let data = cleaned_data st;
          stored =
            (case data ''usernames'' of
               None \<Rightarrow> Inr data
             | Some (PStr usernames) \<Rightarrow>
                 Inr (data(''usernames'' \<mapsto> PStr (normalize_usernames os usernames)))
             | Some _ \<Rightarrow> Inl (AttributeError ''splitlines''))
      in case stored of
           Inl e \<Rightarrow> Inl e
         | Inr data' \<Rightarrow>
             if data' ''usernames'' = None \<or> data' ''usernames'' = Some (PStr [])
             then Inr (st\<lparr>errors := (errors st)(''usernames'' \<mapsto>
                              [''Please enter at least one username to blacklist.'']),
                          cleaned_data := data'\<rparr>)
             else Inr (st\<lparr>cleaned_data := data'\<rparr>))"

section \<open>Lines, white space and joining\<close>

lemma set_strip: "set (strip s) \<subseteq> set s"
proof -
  have "set (strip s) \<subseteq> set (dropWhile is_space s)"
    unfolding strip_def by (metis set_dropWhileD set_rev subsetI)
  also have "\<dots> \<subseteq> set s" by (meson set_dropWhileD subsetI)
  finally show ?thesis .
qed

lemma strip_fixed:
  assumes "s = [] \<or> (\<not> is_space (hd s) \<and> \<not> is_space (last s))"
  shows "strip s = s"
proof (cases "s = []")
  case True
  then show ?thesis by (simp add: strip_def)
next
  case False
  with assms have h: "\<not> is_space (hd s)" and l: "\<not> is_space (last s)" by auto
  from False h have "dropWhile is_space s = s" by (simp add: dropWhile_eq_self_iff)
  moreover from False l have "dropWhile is_space (rev s) = rev s"
    by (simp add: dropWhile_eq_self_iff hd_rev)
  ultimately show ?thesis by (simp add: strip_def)
qed

lemma strip_shape:
  "strip s = [] \<or> (\<not> is_space (hd (strip s)) \<and> \<not> is_space (last (strip s)))"
proof (cases "strip s = []")
  case True
  then show ?thesis by simp
next
  case False
  define t where "t = dropWhile is_space s"
  define w where "w = dropWhile is_space (rev t)"
  have sw: "strip s = rev w" by (simp add: strip_def t_def w_def)
  with False have w: "w \<noteq> []" by simp
  then have t: "t \<noteq> []" unfolding w_def by auto
  have "\<not> is_space (hd w)" using w unfolding w_def by (rule hd_dropWhile)
  then have last_ok: "\<not> is_space (last (strip s))" using w by (simp add: sw last_rev)
  have "rev t = takeWhile is_space (rev t) @ w" by (simp add: w_def)
  then have "last (rev t) = last w" using w by (metis last_appendR)
  then have "last w = hd t" using t by (simp add: last_rev)
  moreover have "\<not> is_space (hd t)" using t unfolding t_def by (rule hd_dropWhile)
  ultimately have "\<not> is_space (hd (strip s))" using w by (simp add: sw hd_rev)
  with last_ok show ?thesis by simp
qed

lemma strip_idem: "strip (strip s) = strip s"
  by (rule strip_fixed) (rule strip_shape)

lemma splitlines_no_break:
  "l \<in> set (splitlines s) \<Longrightarrow> c \<in> set l \<Longrightarrow> \<not> is_linebreak c"
proof (induction s arbitrary: l rule: splitlines.induct)
  case 1
  then show ?case by simp
next
  case (2 a s)
  let ?line = "takeWhile (\<lambda>x. \<not> is_linebreak x) (a # s)"
  let ?rest = "dropWhile (\<lambda>x. \<not> is_linebreak x) (a # s)"
  note unf = splitlines.simps(2)[of a s]
  show ?case
  proof (cases "l = ?line")
    case True
    with "2.prems"(2) show ?thesis by (metis set_takeWhileD)
  next
    case False
    show ?thesis
    proof (cases ?rest)
      case Nil
      with "2.prems"(1) False show ?thesis by (simp add: unf Let_def)
    next
      case (Cons b r1)
      note outer = this
      show ?thesis
      proof (cases r1)
        case Nil
        with "2.prems"(1) False outer show ?thesis by (simp add: unf Let_def)
      next
        case (Cons d r)
        show ?thesis
        proof (cases "b = 0x0D \<and> d = 0x0A")
          case True
          from outer Cons True have "splitlines (a # s) = ?line # splitlines r"
            by (simp add: unf Let_def del: takeWhile.simps dropWhile.simps)
          with "2.prems"(1) False have "l \<in> set (splitlines r)" by simp
          with "2.IH"(1)[OF refl refl outer Cons True] "2.prems"(2) show ?thesis by blast
        next
          case nb: False
          from outer Cons nb have "splitlines (a # s) = ?line # splitlines (d # r)"
            by (auto simp add: unf Let_def simp del: takeWhile.simps dropWhile.simps)
          with "2.prems"(1) False have "l \<in> set (splitlines (d # r))" by simp
          with "2.IH"(2)[OF refl refl outer Cons nb] "2.prems"(2) show ?thesis by blast
        qed
      qed
    qed
  qed
qed

lemma lb_LF: "is_linebreak 0x0A" and lb_CR: "is_linebreak 0x0D"
  by (simp_all add: is_linebreak_def)

lemma splitlines_single:
  assumes "l \<noteq> []" "\<forall>c\<in>set l. \<not> is_linebreak c"
  shows "splitlines l = [l]"
proof -
  from assms(1) obtain a s where l: "l = a # s" by (cases l) auto
  have "takeWhile (\<lambda>x. \<not> is_linebreak x) l = l" using assms(2) by simp
  moreover have "dropWhile (\<lambda>x. \<not> is_linebreak x) l = []" using assms(2) by simp
  ultimately show ?thesis unfolding l by (simp add: splitlines.simps(2)[of a s] Let_def)
qed

lemma splitlines_LF:
  assumes "l \<noteq> []" "\<forall>c\<in>set l. \<not> is_linebreak c" "rest \<noteq> []"
  shows "splitlines (l @ 0x0A # rest) = l # splitlines rest"
proof -
  from assms(1) obtain a s where l: "l = a # s" by (cases l) auto
  from assms(3) obtain d r where rest: "rest = d # r" by (cases rest) auto
  have t: "takeWhile (\<lambda>x. \<not> is_linebreak x) (l @ 0x0A # rest) = l"
    using assms(2) lb_LF by simp
  have d: "dropWhile (\<lambda>x. \<not> is_linebreak x) (l @ 0x0A # rest) = 0x0A # rest"
    using assms(2) lb_LF by simp
  have "splitlines (a # (s @ 0x0A # rest)) = l # splitlines rest"
    using t d unfolding l rest
    by (simp add: splitlines.simps(2)[of a "s @ 0x0A # d # r"] Let_def)
  then show ?thesis by (simp add: l)
qed

lemma splitlines_CRLF:
  assumes "l \<noteq> []" "\<forall>c\<in>set l. \<not> is_linebreak c"
  shows "splitlines (l @ 0x0D # 0x0A # rest) = l # splitlines rest"
proof -
  from assms(1) obtain a s where l: "l = a # s" by (cases l) auto
  have t: "takeWhile (\<lambda>x. \<not> is_linebreak x) (l @ 0x0D # 0x0A # rest) = l"
    using assms(2) lb_CR by simp
  have d: "dropWhile (\<lambda>x. \<not> is_linebreak x) (l @ 0x0D # 0x0A # rest) = 0x0D # 0x0A # rest"
    using assms(2) lb_CR by simp
  have "splitlines (a # (s @ 0x0D # 0x0A # rest)) = l # splitlines rest"
    using t d unfolding l
    by (simp add: splitlines.simps(2)[of a "s @ 0x0D # 0x0A # rest"] Let_def)
  then show ?thesis by (simp add: l)
qed


lemma join_nonempty:
  "ls \<noteq> [] \<Longrightarrow> \<forall>l\<in>set ls. l \<noteq> [] \<Longrightarrow> join sep ls \<noteq> []"
  by (induction sep ls rule: join.induct) auto

lemma splitlines_join:
  assumes "\<forall>l\<in>set ls. l \<noteq> [] \<and> (\<forall>c\<in>set l. \<not> is_linebreak c)"
  shows "splitlines (join (linesep os) ls) = ls"
  using assms
proof (induction "linesep os" ls rule: join.induct)
  case 1
  then show ?case by simp
next
  case (2 x)
  then show ?case by (simp add: splitlines_single)
next
  case (3 x y ys)
  from "3.prems" have x: "x \<noteq> []" "\<forall>c\<in>set x. \<not> is_linebreak c" by simp_all
  from "3.prems" have ne: "join (linesep os) (y # ys) \<noteq> []"
    by (intro join_nonempty) simp_all
  from "3.prems" have IH: "splitlines (join (linesep os) (y # ys)) = y # ys"
    by (intro "3.hyps") simp_all
  show ?case
  proof (cases os)
    case Posix
    with splitlines_LF[OF x ne] IH show ?thesis by simp
  next
    case Windows
    with splitlines_CRLF[OF x, of "join (linesep os) (y # ys)"] IH show ?thesis by simp
  qed
qed

text \<open>The lines that the normalization keeps: stripped, and never blank.\<close>

lemma kept_lines:
  assumes "x \<in> set (map strip (filter (\<lambda>s. strip s \<noteq> []) (splitlines t)))"
  shows "x \<noteq> []" and "strip x = x" and "\<forall>c\<in>set x. \<not> is_linebreak c"
proof -
  from assms obtain s where s: "s \<in> set (splitlines t)" "strip s \<noteq> []" "x = strip s"
    by auto
  from s show "x \<noteq> []" by simp
  from s show "strip x = x" by (simp add: strip_idem)
  from s set_strip[of s] splitlines_no_break[of s t]
  show "\<forall>c\<in>set x. \<not> is_linebreak c" by blast
qed

lemma normalize_usernames_empty_iff:
  "normalize_usernames os t = [] \<longleftrightarrow> (\<forall>l\<in>set (splitlines t). strip l = [])"
proof
  assume e: "normalize_usernames os t = []"
  show "\<forall>l\<in>set (splitlines t). strip l = []"
  proof (rule ccontr)
    assume "\<not> (\<forall>l\<in>set (splitlines t). strip l = [])"
    then have ne: "map strip (filter (\<lambda>s. strip s \<noteq> []) (splitlines t)) \<noteq> []"
      by (auto simp: filter_empty_conv)
    have "join (linesep os) (map strip (filter (\<lambda>s. strip s \<noteq> []) (splitlines t))) \<noteq> []"
      using ne kept_lines(1)[of _ t] by (intro join_nonempty) blast+
    with e show False by (simp add: normalize_usernames_def)
  qed
next
  assume "\<forall>l\<in>set (splitlines t). strip l = []"
  then have "map strip (filter (\<lambda>s. strip s \<noteq> []) (splitlines t)) = []"
    by (auto simp: filter_empty_conv)
  then show "normalize_usernames os t = []" by (simp add: normalize_usernames_def)
qed

section \<open>Facts about the forms\<close>

lemma UserRegisterForm_clean_other_keys:
  assumes "k \<noteq> ''password2''"
  shows "errors (UserRegisterForm_clean st) k = errors st k"
    and "cleaned_data (UserRegisterForm_clean st) k = cleaned_data st k"
  using assms by (simp_all add: UserRegisterForm_clean_def Let_def)

text \<open>
  When the field \<^verbatim>\<open>oldpassword\<close> did not survive its own validation, the key is missing
  and \<^verbatim>\<open>UserEditForm.clean\<close> ends in a \<^verbatim>\<open>KeyError\<close> as soon as a new password is given.
\<close>

lemma UserEditForm_clean_missing_oldpassword:
  assumes "truthy (dict_get (cleaned_data st) ''password'')
             \<or> truthy (dict_get (cleaned_data st) ''password2'')"
    and "cleaned_data st ''oldpassword'' = None"
  shows "UserEditForm_clean check_password st = Inl (KeyError ''oldpassword'')"
  using assms by (auto simp: UserEditForm_clean_def Let_def)

lemma UserRegisterForm_base_fields_recaptcha:
  "UserRegisterForm_base_fields model_fields ''recaptcha'' = Some ReCaptchaField"
  by (simp add: UserRegisterForm_base_fields_def)

lemma UserEditForm_base_fields_recaptcha:
  "UserEditForm_base_fields model_fields ''recaptcha'' = Some ReCaptchaField"
  by (simp add: UserEditForm_base_fields_def UserRegisterForm_base_fields_def map_add_def)

lemma save_photo_file:
  "save_photo dir_exists u (PFile f) =
     ((if dir_exists then [] else [Makedirs (picture_dir u)])
        @ [Open (picture_path u @ ''__unconverted'') ''w'']
        @ map Write (chunks f)
        @ [Close, Delay (picture_path u @ ''__unconverted'') (picture_path u)],
      Inr (u\<lparr>picture_type := ''image/png''\<rparr>))"
  by (simp add: save_photo_def Let_def)

section \<open>The claims\<close>

text \<open>
  C1. A submitted password that does not hash-match the stored credential of the requesting
  account fails validation. On the deletion form \<^verbatim>\<open>clean_password\<close> raises the
  validation error. On the edit form, once a new password or its confirmation is supplied
  and the cleaned data hold the old password, \<^verbatim>\<open>clean\<close> raises nothing: it records the
  failure as the error of the field \<^verbatim>\<open>oldpassword\<close> and deletes that key from the
  cleaned data. A matching password passes the check on either form.
\<close>

theorem password_mismatch_rejected:
  "(data ''password'' = Some p \<and> \<not> check_password p \<longrightarrow>
      UserDeleteForm_clean_password check_password data
        = Inl (ValidationError ''Wrong password entered!''))
   \<and> (data ''password'' = Some p \<and> check_password p \<longrightarrow>
      UserDeleteForm_clean_password check_password data = Inr PNone)
   \<and> ((truthy (dict_get (cleaned_data st) ''password'')
          \<or> truthy (dict_get (cleaned_data st) ''password2''))
        \<and> cleaned_data st ''oldpassword'' = Some old \<and> \<not> check_password old \<longrightarrow>
      (\<exists>st'. UserEditForm_clean check_password st = Inr st'
          \<and> errors st' ''oldpassword'' = Some [''Wrong password entered!'']
          \<and> cleaned_data st' ''oldpassword'' = None))
   \<and> ((truthy (dict_get (cleaned_data st) ''password'')
          \<or> truthy (dict_get (cleaned_data st) ''password2''))
        \<and> cleaned_data st ''oldpassword'' = Some old \<and> check_password old \<longrightarrow>
      UserEditForm_clean check_password st = Inr (UserRegisterForm_clean st))"
proof (intro conjI impI)
  assume "data ''password'' = Some p \<and> \<not> check_password p"
  then show "UserDeleteForm_clean_password check_password data
               = Inl (ValidationError ''Wrong password entered!'')"
    by (simp add: UserDeleteForm_clean_password_def)
next
  assume "data ''password'' = Some p \<and> check_password p"
  then show "UserDeleteForm_clean_password check_password data = Inr PNone"
    by (simp add: UserDeleteForm_clean_password_def)
next
  assume a: "(truthy (dict_get (cleaned_data st) ''password'')
                \<or> truthy (dict_get (cleaned_data st) ''password2''))
             \<and> cleaned_data st ''oldpassword'' = Some old \<and> \<not> check_password old"
  define st2 where
    "st2 = st\<lparr>errors := (errors st)(''oldpassword'' \<mapsto> [''Wrong password entered!'']),
              cleaned_data := (cleaned_data st)(''oldpassword'' := None)\<rparr>"
  from a have "UserEditForm_clean check_password st = Inr (UserRegisterForm_clean st2)"
    by (auto simp: UserEditForm_clean_def Let_def st2_def)
  moreover have "errors (UserRegisterForm_clean st2) ''oldpassword''
                   = Some [''Wrong password entered!'']"
    by (simp add: UserRegisterForm_clean_other_keys st2_def)
  moreover have "cleaned_data (UserRegisterForm_clean st2) ''oldpassword'' = None"
    by (simp add: UserRegisterForm_clean_other_keys st2_def)
  ultimately show "\<exists>st'. UserEditForm_clean check_password st = Inr st'
          \<and> errors st' ''oldpassword'' = Some [''Wrong password entered!'']
          \<and> cleaned_data st' ''oldpassword'' = None"
    by simp
next
  assume "(truthy (dict_get (cleaned_data st) ''password'')
             \<or> truthy (dict_get (cleaned_data st) ''password2''))
          \<and> cleaned_data st ''oldpassword'' = Some old \<and> check_password old"
  then show "UserEditForm_clean check_password st = Inr (UserRegisterForm_clean st)"
    by (auto simp: UserEditForm_clean_def Let_def)
qed

theorem password_mismatch_rejected_witness:
  "UserDeleteForm_clean_password (\<lambda>v. v = PStr [115]) [''password'' \<mapsto> PStr [120]]
     = Inl (ValidationError ''Wrong password entered!'')
   \<and> UserDeleteForm_clean_password (\<lambda>v. v = PStr [115]) [''password'' \<mapsto> PStr [115]]
     = Inr PNone
   \<and> (\<exists>st'. UserEditForm_clean (\<lambda>v. v = PStr [115])
              \<lparr>errors = Map.empty,
               cleaned_data = [''password'' \<mapsto> PStr [110], ''password2'' \<mapsto> PStr [110],
                               ''oldpassword'' \<mapsto> PStr [120]]\<rparr> = Inr st'
         \<and> errors st' ''oldpassword'' = Some [''Wrong password entered!'']
         \<and> cleaned_data st' ''oldpassword'' = None)"
proof -
  let ?check = "\<lambda>v. v = PStr [115]"
  let ?st = "\<lparr>errors = Map.empty,
              cleaned_data = [''password'' \<mapsto> PStr [110], ''password2'' \<mapsto> PStr [110],
                              ''oldpassword'' \<mapsto> PStr [120]]\<rparr>"
  have wrong: "[''password'' \<mapsto> PStr [120]] ''password'' = Some (PStr [120])
                 \<and> \<not> ?check (PStr [120])"
    by simp
  have right: "[''password'' \<mapsto> PStr [115]] ''password'' = Some (PStr [115])
                 \<and> ?check (PStr [115])"
    by simp
  have edit: "(truthy (dict_get (cleaned_data ?st) ''password'')
                 \<or> truthy (dict_get (cleaned_data ?st) ''password2''))
              \<and> cleaned_data ?st ''oldpassword'' = Some (PStr [120])
              \<and> \<not> ?check (PStr [120])"
    by (simp add: dict_get_def)
  note a = password_mismatch_rejected
             [where data = "[''password'' \<mapsto> PStr [120]]" and p = "PStr [120]"
                and check_password = ?check and st = ?st and old = "PStr [120]"]
  note b = password_mismatch_rejected
             [where data = "[''password'' \<mapsto> PStr [115]]" and p = "PStr [115]"
                and check_password = ?check and st = ?st and old = "PStr [120]"]
  from a wrong have 1: "UserDeleteForm_clean_password ?check [''password'' \<mapsto> PStr [120]]
                          = Inl (ValidationError ''Wrong password entered!'')"
    by blast
  from b right have 2: "UserDeleteForm_clean_password ?check [''password'' \<mapsto> PStr [115]]
                          = Inr PNone"
    by blast
  from a edit have 3: "\<exists>st'. UserEditForm_clean ?check ?st = Inr st'
         \<and> errors st' ''oldpassword'' = Some [''Wrong password entered!'']
         \<and> cleaned_data st' ''oldpassword'' = None"
    by blast
  from 1 2 3 show ?thesis by (intro conjI)
qed

text \<open>
  The edit form does not raise a validation error on a mismatch. With a new password
  supplied and an old password (code point 120) that the account (whose password is code
  point 115) rejects, \<^verbatim>\<open>UserEditForm.clean\<close> returns normally, the failure being an entry
  of the error dictionary. With a new password supplied and no \<^verbatim>\<open>oldpassword\<close> among the
  cleaned data, it ends in a \<^verbatim>\<open>KeyError\<close>.
\<close>

theorem edit_password_mismatch_not_raised:
  "\<not> (=) (PStr [115]) (PStr [120])
   \<and> truthy (dict_get [''password'' \<mapsto> PStr [110], ''password2'' \<mapsto> PStr [110],
                         ''oldpassword'' \<mapsto> PStr [120]] ''password'')
   \<and> \<not> isl (UserEditForm_clean ((=) (PStr [115]))
               \<lparr>errors = Map.empty,
                cleaned_data = [''password'' \<mapsto> PStr [110], ''password2'' \<mapsto> PStr [110],
                                ''oldpassword'' \<mapsto> PStr [120]]\<rparr>)
   \<and> UserEditForm_clean ((=) (PStr [115]))
         \<lparr>errors = Map.empty,
          cleaned_data = [''password'' \<mapsto> PStr [110], ''password2'' \<mapsto> PStr [110]]\<rparr>
       = Inl (KeyError ''oldpassword'')"
  by (simp add: UserEditForm_clean_def Let_def dict_get_def)

text \<open>
  C2. A non-empty photo handed to \<^verbatim>\<open>UserEditForm.clean_photo\<close> is accepted (returned) if
  and only if its declared content type is \<^verbatim>\<open>image/png\<close> or \<^verbatim>\<open>image/jpeg\<close> and its size
  does not exceed the configured maximum; a wrong content type and an excessive size each
  raise a validation error with a message of their own.
\<close>

theorem clean_photo_accepts_iff:
  assumes "data ''photo'' = Some (PFile f)" and "truthy (PFile f)"
  shows "(UserEditForm_clean_photo max_size data = Inr (PFile f)
            \<longleftrightarrow> content_type f \<in> {''image/png'', ''image/jpeg''} \<and> size_attr f \<le> max_size)
       \<and> (content_type f \<notin> {''image/png'', ''image/jpeg''} \<longrightarrow>
            UserEditForm_clean_photo max_size data
              = Inl (ValidationError ''Images must be either PNG or JPG.''))
       \<and> (content_type f \<in> {''image/png'', ''image/jpeg''} \<and> size_attr f > max_size \<longrightarrow>
            UserEditForm_clean_photo max_size data
              = Inl (ValidationError
                  (''Please use images smaller than ''
                    @ str_int (max_size div 1024 div 1024 - 1) @ ''MB.'')))"
  using assms by (auto simp: UserEditForm_clean_photo_def)

theorem clean_photo_accepts_iff_witness:
  "UserEditForm_clean_photo 4194304
       [''photo'' \<mapsto> PFile \<lparr>file_name = [97], content_type = ''image/jpeg'',
                               size_attr = 10, chunks = [''x'']\<rparr>]
     = Inr (PFile \<lparr>file_name = [97], content_type = ''image/jpeg'',
                   size_attr = 10, chunks = [''x'']\<rparr>)
   \<and> UserEditForm_clean_photo 4194304
       [''photo'' \<mapsto> PFile \<lparr>file_name = [97], content_type = ''text/html'',
                               size_attr = 10, chunks = [''x'']\<rparr>]
     = Inl (ValidationError ''Images must be either PNG or JPG.'')
   \<and> UserEditForm_clean_photo 4194304
       [''photo'' \<mapsto> PFile \<lparr>file_name = [97], content_type = ''image/png'',
                               size_attr = 4194305, chunks = [''x'']\<rparr>]
     = Inl (ValidationError ''Please use images smaller than 3MB.'')"
proof -
  let ?jpeg = "\<lparr>file_name = [97], content_type = ''image/jpeg'',
                size_attr = 10, chunks = [''x'']\<rparr>"
  let ?html = "\<lparr>file_name = [97], content_type = ''text/html'',
                size_attr = 10, chunks = [''x'']\<rparr>"
  let ?big = "\<lparr>file_name = [97], content_type = ''image/png'',
               size_attr = 4194305, chunks = [''x'']\<rparr>"
  have three: "str_int (4194304 div 1024 div 1024 - 1) = ''3''"
    by code_simp
  have 1: "UserEditForm_clean_photo 4194304 [''photo'' \<mapsto> PFile ?jpeg] = Inr (PFile ?jpeg)"
    using clean_photo_accepts_iff
            [where data = "[''photo'' \<mapsto> PFile ?jpeg]" and f = ?jpeg and max_size = 4194304]
    by simp
  have 2: "UserEditForm_clean_photo 4194304 [''photo'' \<mapsto> PFile ?html]
             = Inl (ValidationError ''Images must be either PNG or JPG.'')"
    using clean_photo_accepts_iff
            [where data = "[''photo'' \<mapsto> PFile ?html]" and f = ?html and max_size = 4194304]
    by simp
  have 3: "UserEditForm_clean_photo 4194304 [''photo'' \<mapsto> PFile ?big]
             = Inl (ValidationError ''Please use images smaller than 3MB.'')"
    using clean_photo_accepts_iff
            [where data = "[''photo'' \<mapsto> PFile ?big]" and f = ?big and max_size = 4194304]
          three
    by simp
  from 1 2 3 show ?thesis by (intro conjI)
qed

text \<open>
  C3. When the profile of the requesting account has the developer flag set,
  \<^verbatim>\<open>UserDeleteForm.clean\<close> writes the tampering warning to the log and rejects the form
  with a validation error whose message is empty, whatever the submitted data are.
\<close>

theorem developer_delete_logged_and_rejected:
  assumes "is_developer amouser"
  shows "UserDeleteForm_clean amouser user data
           = ([Log Warning (''[Tampering] Attempt to delete developer account ('' @ user @ '')'')],
              Inl (ValidationError ''''))"
  using assms by (simp add: UserDeleteForm_clean_def)

theorem developer_delete_logged_and_rejected_witness:
  "UserDeleteForm_clean
       \<lparr>password = ''sha512$x$y'', picture_type = '''', picture_dir = ''/pics/0/1'',
        picture_path = ''/pics/0/1/1234.png'', is_developer = True\<rparr>
       ''bob'' [''password'' \<mapsto> PStr [120], ''confirm'' \<mapsto> PBool True]
     = ([Log Warning ''[Tampering] Attempt to delete developer account (bob)''],
        Inl (ValidationError ''''))"
  using developer_delete_logged_and_rejected
          [where amouser = "\<lparr>password = ''sha512$x$y'', picture_type = '''',
                              picture_dir = ''/pics/0/1'',
                              picture_path = ''/pics/0/1/1234.png'', is_developer = True\<rparr>"
             and user = "''bob''"
             and data = "[''password'' \<mapsto> PStr [120], ''confirm'' \<mapsto> PBool True]"]
  by simp

text \<open>
  C4. \<^verbatim>\<open>UserRegisterForm.clean\<close> records an error on the field \<^verbatim>\<open>password2\<close> whenever
  the two password values it reads differ; when they are equal it changes neither the
  errors nor the data.
\<close>

theorem register_password_confirmation:
  "(dict_get (cleaned_data st) ''password'' \<noteq> dict_get (cleaned_data st) ''password2'' \<longrightarrow>
      errors (UserRegisterForm_clean st) ''password2'' = Some [''The passwords did not match.''])
   \<and> (dict_get (cleaned_data st) ''password'' = dict_get (cleaned_data st) ''password2'' \<longrightarrow>
      UserRegisterForm_clean st = st)"
  by (simp add: UserRegisterForm_clean_def Let_def)

theorem register_password_confirmation_witness:
  "errors (UserRegisterForm_clean
             \<lparr>errors = Map.empty,
              cleaned_data = [''password'' \<mapsto> PStr [97], ''password2'' \<mapsto> PStr [98]]\<rparr>)
       ''password2'' = Some [''The passwords did not match.'']
   \<and> UserRegisterForm_clean
        \<lparr>errors = Map.empty,
         cleaned_data = [''password'' \<mapsto> PStr [97], ''password2'' \<mapsto> PStr [97]]\<rparr>
     = \<lparr>errors = Map.empty,
        cleaned_data = [''password'' \<mapsto> PStr [97], ''password2'' \<mapsto> PStr [97]]\<rparr>"
proof -
  let ?differ = "\<lparr>errors = Map.empty,
                  cleaned_data = [''password'' \<mapsto> PStr [97], ''password2'' \<mapsto> PStr [98]]\<rparr>"
  let ?same = "\<lparr>errors = Map.empty,
                cleaned_data = [''password'' \<mapsto> PStr [97], ''password2'' \<mapsto> PStr [97]]\<rparr>"
  have d: "dict_get (cleaned_data ?differ) ''password''
             \<noteq> dict_get (cleaned_data ?differ) ''password2''"
    by (simp add: dict_get_def)
  have s: "dict_get (cleaned_data ?same) ''password''
             = dict_get (cleaned_data ?same) ''password2''"
    by (simp add: dict_get_def)
  from register_password_confirmation [where st = ?differ] d
  have 1: "errors (UserRegisterForm_clean ?differ) ''password2''
             = Some [''The passwords did not match.'']"
    by blast
  from register_password_confirmation [where st = ?same] s
  have 2: "UserRegisterForm_clean ?same = ?same"
    by blast
  from 1 2 show ?thesis by (intro conjI)
qed

text \<open>
  C5. \<^verbatim>\<open>UserRegisterForm.clean_username\<close> asks the blacklist about the submitted user
  name: a blocked name raises the validation error of the field, any other name is
  returned unchanged.
\<close>

theorem clean_username_blacklist:
  "(data ''username'' = Some n \<and> blocked n \<longrightarrow>
      UserRegisterForm_clean_username blocked data
        = Inl (ValidationError ''This username is invalid.''))
   \<and> (data ''username'' = Some n \<and> \<not> blocked n \<longrightarrow>
      UserRegisterForm_clean_username blocked data = Inr n)"
  by (simp add: UserRegisterForm_clean_username_def)

theorem clean_username_blacklist_witness:
  "UserRegisterForm_clean_username (\<lambda>v. v = PStr [97, 100, 109, 105, 110])
       [''username'' \<mapsto> PStr [97, 100, 109, 105, 110]]
     = Inl (ValidationError ''This username is invalid.'')
   \<and> UserRegisterForm_clean_username (\<lambda>v. v = PStr [97, 100, 109, 105, 110])
       [''username'' \<mapsto> PStr [98, 111, 98]]
     = Inr (PStr [98, 111, 98])"
proof -
  let ?blocked = "\<lambda>v. v = PStr [97, 100, 109, 105, 110]"
  have 1: "UserRegisterForm_clean_username ?blocked
             [''username'' \<mapsto> PStr [97, 100, 109, 105, 110]]
           = Inl (ValidationError ''This username is invalid.'')"
    using clean_username_blacklist
            [where data = "[''username'' \<mapsto> PStr [97, 100, 109, 105, 110]]"
               and n = "PStr [97, 100, 109, 105, 110]" and blocked = ?blocked]
    by simp
  have 2: "UserRegisterForm_clean_username ?blocked [''username'' \<mapsto> PStr [98, 111, 98]]
           = Inr (PStr [98, 111, 98])"
    using clean_username_blacklist
            [where data = "[''username'' \<mapsto> PStr [98, 111, 98]]"
               and n = "PStr [98, 111, 98]" and blocked = ?blocked]
    by simp
  from 1 2 show ?thesis by (intro conjI)
qed

text \<open>
  C6. \<^verbatim>\<open>BlacklistedUsernameAddForm.clean\<close> records an error on the field \<^verbatim>\<open>usernames\<close>
  when the key is missing from the cleaned data and when every line of the text is blank
  after stripping; a text with at least one non-blank line leaves the errors as they were.
\<close>

theorem blacklist_empty_submission_error:
  "(cleaned_data st ''usernames'' = None \<longrightarrow>
      (\<exists>st'. BlacklistedUsernameAddForm_clean os st = Inr st'
         \<and> errors st' ''usernames''
             = Some [''Please enter at least one username to blacklist.'']))
   \<and> (cleaned_data st ''usernames'' = Some (PStr t)
        \<and> (\<forall>l\<in>set (splitlines t). strip l = []) \<longrightarrow>
      (\<exists>st'. BlacklistedUsernameAddForm_clean os st = Inr st'
         \<and> errors st' ''usernames''
             = Some [''Please enter at least one username to blacklist.'']))
   \<and> (cleaned_data st ''usernames'' = Some (PStr t)
        \<and> (\<exists>l\<in>set (splitlines t). strip l \<noteq> []) \<longrightarrow>
      (\<exists>st'. BlacklistedUsernameAddForm_clean os st = Inr st' \<and> errors st' = errors st))"
proof (intro conjI impI)
  assume "cleaned_data st ''usernames'' = None"
  then show "\<exists>st'. BlacklistedUsernameAddForm_clean os st = Inr st'
         \<and> errors st' ''usernames''
             = Some [''Please enter at least one username to blacklist.'']"
    by (simp add: BlacklistedUsernameAddForm_clean_def Let_def)
next
  assume a: "cleaned_data st ''usernames'' = Some (PStr t)
               \<and> (\<forall>l\<in>set (splitlines t). strip l = [])"
  then have "normalize_usernames os t = []" by (simp add: normalize_usernames_empty_iff)
  with a show "\<exists>st'. BlacklistedUsernameAddForm_clean os st = Inr st'
         \<and> errors st' ''usernames''
             = Some [''Please enter at least one username to blacklist.'']"
    by (simp add: BlacklistedUsernameAddForm_clean_def Let_def)
next
  assume a: "cleaned_data st ''usernames'' = Some (PStr t)
               \<and> (\<exists>l\<in>set (splitlines t). strip l \<noteq> [])"
  then have "normalize_usernames os t \<noteq> []" by (simp add: normalize_usernames_empty_iff)
  with a show "\<exists>st'. BlacklistedUsernameAddForm_clean os st = Inr st' \<and> errors st' = errors st"
    by (simp add: BlacklistedUsernameAddForm_clean_def Let_def)
qed

theorem blacklist_empty_submission_error_witness:
  "(\<exists>st'. BlacklistedUsernameAddForm_clean Posix
              \<lparr>errors = Map.empty, cleaned_data = Map.empty\<rparr> = Inr st'
        \<and> errors st' ''usernames''
            = Some [''Please enter at least one username to blacklist.''])
   \<and> (\<exists>st'. BlacklistedUsernameAddForm_clean Posix
              \<lparr>errors = Map.empty,
               cleaned_data = [''usernames'' \<mapsto> PStr [32, 10, 9, 13, 10]]\<rparr> = Inr st'
        \<and> errors st' ''usernames''
            = Some [''Please enter at least one username to blacklist.''])
   \<and> (\<exists>st'. BlacklistedUsernameAddForm_clean Posix
              \<lparr>errors = Map.empty,
               cleaned_data = [''usernames'' \<mapsto> PStr [32, 97, 10, 10, 98]]\<rparr> = Inr st'
        \<and> errors st' = errors \<lparr>errors = Map.empty,
                               cleaned_data = [''usernames'' \<mapsto> PStr [32, 97, 10, 10, 98]]\<rparr>)"
proof -
  let ?missing = "\<lparr>errors = Map.empty, cleaned_data = Map.empty\<rparr> :: form_state"
  let ?blank = "\<lparr>errors = Map.empty,
                 cleaned_data = [''usernames'' \<mapsto> PStr [32, 10, 9, 13, 10]]\<rparr>"
  let ?names = "\<lparr>errors = Map.empty,
                 cleaned_data = [''usernames'' \<mapsto> PStr [32, 97, 10, 10, 98]]\<rparr>"
  have m: "cleaned_data ?missing ''usernames'' = None" by simp
  have lines_blank: "splitlines [32, 10, 9, 13, 10] = [[32], [9]]"
    by (simp add: splitlines.simps(2) [of 32 "[10, 9, 13, 10]"]
          splitlines.simps(2) [of 9 "[13, 10]"] is_linebreak_def)
  have lines_names: "splitlines [32, 97, 10, 10, 98] = [[32, 97], [], [98]]"
    by (simp add: splitlines.simps(2) [of 32 "[97, 10, 10, 98]"]
          splitlines.simps(2) [of 10 "[98]"] splitlines.simps(2) [of 98 "[]"]
          is_linebreak_def)
  have "strip [32] = []" "strip [9] = []" by (simp_all add: strip_def is_space_def)
  with lines_blank
  have b: "cleaned_data ?blank ''usernames'' = Some (PStr [32, 10, 9, 13, 10])
             \<and> (\<forall>l\<in>set (splitlines [32, 10, 9, 13, 10]). strip l = [])"
    by simp
  have "strip [32, 97] = [97]" by (simp add: strip_def is_space_def)
  with lines_names
  have n: "cleaned_data ?names ''usernames'' = Some (PStr [32, 97, 10, 10, 98])
             \<and> (\<exists>l\<in>set (splitlines [32, 97, 10, 10, 98]). strip l \<noteq> [])"
    by simp
  from blacklist_empty_submission_error [where st = ?missing and os = Posix] m
  have 1: "\<exists>st'. BlacklistedUsernameAddForm_clean Posix ?missing = Inr st'
        \<and> errors st' ''usernames''
            = Some [''Please enter at least one username to blacklist.'']"
    by blast
  from blacklist_empty_submission_error
         [where st = ?blank and os = Posix and t = "[32, 10, 9, 13, 10]"] b
  have 2: "\<exists>st'. BlacklistedUsernameAddForm_clean Posix ?blank = Inr st'
        \<and> errors st' ''usernames''
            = Some [''Please enter at least one username to blacklist.'']"
    by blast
  from blacklist_empty_submission_error
         [where st = ?names and os = Posix and t = "[32, 97, 10, 10, 98]"] n
  have 3: "\<exists>st'. BlacklistedUsernameAddForm_clean Posix ?names = Inr st'
        \<and> errors st' = errors ?names"
    by blast
  from 1 2 3 show ?thesis by (intro conjI)
qed

text \<open>
  C7. A constructed registration form has the field \<^verbatim>\<open>recaptcha\<close> exactly when
  \<^verbatim>\<open>settings.RECAPTCHA_PRIVATE_KEY\<close> is set (true); a constructed edit form never has it,
  whatever the setting.
\<close>

theorem recaptcha_field_presence:
  "(\<exists>fs. UserRegisterForm_init private_key (UserRegisterForm_base_fields model_fields) = Inr fs
        \<and> ((fs ''recaptcha'' = Some ReCaptchaField) = truthy private_key)
        \<and> ((fs ''recaptcha'' = None) = (\<not> truthy private_key)))
   \<and> (\<exists>fs. UserEditForm_init private_key model_fields = Inr fs \<and> fs ''recaptcha'' = None)"
proof (cases "truthy private_key")
  case True
  then show ?thesis
    by (simp add: UserRegisterForm_init_def UserEditForm_init_def dict_del_def
        UserRegisterForm_base_fields_recaptcha UserEditForm_base_fields_recaptcha)
next
  case False
  then show ?thesis
    by (simp add: UserRegisterForm_init_def UserEditForm_init_def dict_del_def
        UserRegisterForm_base_fields_recaptcha UserEditForm_base_fields_recaptcha)
qed

text \<open>
  C8. With a non-empty photo in the cleaned data, the effects of \<^verbatim>\<open>UserEditForm.save\<close>
  begin with the creation of the picture directory when it is missing, the opening of
  \<^verbatim>\<open>picture_path + '__unconverted'\<close> for writing, one write per chunk of the upload in
  order, and the closing of the file; only then is the resize job enqueued, with that
  temporary path and \<^verbatim>\<open>picture_path\<close>. Nothing is enqueued a second time and the job is
  never waited for.
\<close>

theorem photo_written_before_resize_enqueued:
  assumes "data ''photo'' = Some (PFile f)" and "truthy (PFile f)"
  shows "\<exists>post. fst (UserEditForm_save make_hash show_profile dir_exists u data) =
            (if dir_exists then [] else [Makedirs (picture_dir u)])
              @ [Open (picture_path u @ ''__unconverted'') ''w'']
              @ map Write (chunks f)
              @ [Close, Delay (picture_path u @ ''__unconverted'') (picture_path u)]
              @ post
          \<and> (\<forall>e\<in>set post. (\<forall>a b. e \<noteq> Delay a b) \<and> e \<noteq> TaskWait)"
proof (cases "data ''password''")
  case None
  with assms show ?thesis
    by (simp add: UserEditForm_save_def save_photo_file)
next
  case (Some pw)
  with assms show ?thesis
    by (simp add: UserEditForm_save_def save_photo_file Let_def)
qed

theorem photo_written_before_resize_enqueued_witness:
  "\<exists>post. fst (UserEditForm_save (\<lambda>v. ''digest'') (\<lambda>p. ''1234: bob'') False
                 \<lparr>password = ''sha512$x$y'', picture_type = '''', picture_dir = ''/pics/0/1'',
                  picture_path = ''/pics/0/1/1234.png'', is_developer = False\<rparr>
                 [''photo'' \<mapsto> PFile \<lparr>file_name = [97], content_type = ''image/jpeg'',
                                         size_attr = 3, chunks = [''ab'', ''c'']\<rparr>,
                  ''password'' \<mapsto> PStr []]) =
            [Makedirs ''/pics/0/1'', Open ''/pics/0/1/1234.png__unconverted'' ''w'',
             Write ''ab'', Write ''c'', Close,
             Delay ''/pics/0/1/1234.png__unconverted'' ''/pics/0/1/1234.png''] @ post
          \<and> list_all (\<lambda>e. (\<forall>a b. e \<noteq> Delay a b) \<and> e \<noteq> TaskWait) post"
  using photo_written_before_resize_enqueued
          [where data = "[''photo'' \<mapsto> PFile \<lparr>file_name = [97], content_type = ''image/jpeg'',
                                                  size_attr = 3, chunks = [''ab'', ''c'']\<rparr>,
                          ''password'' \<mapsto> PStr []]"
             and f = "\<lparr>file_name = [97], content_type = ''image/jpeg'',
                        size_attr = 3, chunks = [''ab'', ''c'']\<rparr>"
             and make_hash = "\<lambda>v. ''digest''" and show_profile = "\<lambda>p. ''1234: bob''"
             and dir_exists = False
             and u = "\<lparr>password = ''sha512$x$y'', picture_type = '''',
                        picture_dir = ''/pics/0/1'',
                        picture_path = ''/pics/0/1/1234.png'', is_developer = False\<rparr>"]
  by (simp add: list_all_iff)

text \<open>
  C9. With a non-empty photo in the cleaned data, the profile that \<^verbatim>\<open>UserEditForm.save\<close>
  saves and returns has \<^verbatim>\<open>picture_type\<close> set to \<^verbatim>\<open>image/png\<close>, whatever content type the
  upload declared.
\<close>

theorem saved_picture_type_png:
  assumes "data ''photo'' = Some (PFile f)" and "truthy (PFile f)"
  shows "(data ''password'' = Some pw \<longrightarrow>
            (\<exists>tr u'. UserEditForm_save make_hash show_profile dir_exists u data
                        = (tr @ [DbSave u'], Inr u')
                    \<and> picture_type u' = ''image/png''))
       \<and> (\<forall>u'. DbSave u' \<in> set (fst (UserEditForm_save make_hash show_profile dir_exists u data))
              \<longrightarrow> picture_type u' = ''image/png'')"
proof (cases "data ''password''")
  case None
  with assms show ?thesis
    by (auto simp: UserEditForm_save_def save_photo_file)
next
  case (Some x)
  show ?thesis
  proof (cases "truthy x")
    case True
    with assms Some show ?thesis
      by (auto simp: UserEditForm_save_def save_photo_file Let_def set_password_def)
  next
    case False
    with assms Some show ?thesis
      by (auto simp: UserEditForm_save_def save_photo_file Let_def)
  qed
qed

theorem saved_picture_type_png_witness:
  "\<exists>tr u'. UserEditForm_save (\<lambda>v. ''digest'') (\<lambda>p. ''1234: bob'') True
               \<lparr>password = ''sha512$x$y'', picture_type = '''', picture_dir = ''/pics/0/1'',
                picture_path = ''/pics/0/1/1234.png'', is_developer = False\<rparr>
               [''photo'' \<mapsto> PFile \<lparr>file_name = [97], content_type = ''image/jpeg'',
                                       size_attr = 3, chunks = [''ab'', ''c'']\<rparr>,
                ''password'' \<mapsto> PStr [110]]
             = (tr @ [DbSave u'], Inr u')
         \<and> picture_type u' = ''image/png''"
  using saved_picture_type_png
          [where data = "[''photo'' \<mapsto> PFile \<lparr>file_name = [97], content_type = ''image/jpeg'',
                                                  size_attr = 3, chunks = [''ab'', ''c'']\<rparr>,
                          ''password'' \<mapsto> PStr [110]]"
             and f = "\<lparr>file_name = [97], content_type = ''image/jpeg'',
                        size_attr = 3, chunks = [''ab'', ''c'']\<rparr>"
             and pw = "PStr [110]"
             and make_hash = "\<lambda>v. ''digest''" and show_profile = "\<lambda>p. ''1234: bob''"
             and dir_exists = True
             and u = "\<lparr>password = ''sha512$x$y'', picture_type = '''',
                        picture_dir = ''/pics/0/1'',
                        picture_path = ''/pics/0/1/1234.png'', is_developer = False\<rparr>"]
  by simp

text \<open>
  C10. The normalization of the bulk list of user names, done by
  \<^verbatim>\<open>BlacklistedUsernameAddForm.clean\<close> (strip each line, drop the blank lines, join the
  rest with the platform's line separator), is idempotent: for every text and on either
  platform, normalizing a normalized text returns it unchanged.
\<close>

theorem normalize_usernames_idempotent:
  "normalize_usernames os (normalize_usernames os t) = normalize_usernames os t"
proof -
  define ls where "ls = map strip (filter (\<lambda>s. strip s \<noteq> []) (splitlines t))"
  have n: "normalize_usernames os t = join (linesep os) ls"
    by (simp add: normalize_usernames_def ls_def)
  have props: "\<forall>x\<in>set ls. x \<noteq> [] \<and> strip x = x \<and> (\<forall>c\<in>set x. \<not> is_linebreak c)"
    unfolding ls_def using kept_lines[of _ t] by blast
  then have again: "splitlines (join (linesep os) ls) = ls"
    by (intro splitlines_join) blast
  from props have "filter (\<lambda>s. strip s \<noteq> []) ls = ls" by (simp add: filter_id_conv)
  moreover from props have "map strip ls = ls" by (simp add: map_idI)
  ultimately have kept: "map strip (filter (\<lambda>s. strip s \<noteq> []) ls) = ls" by simp
  have "normalize_usernames os (join (linesep os) ls) =
          join (linesep os)
            (map strip (filter (\<lambda>s. strip s \<noteq> []) (splitlines (join (linesep os) ls))))"
    by (simp add: normalize_usernames_def)
  also have "\<dots> = join (linesep os) ls" by (simp only: again kept)
  finally show ?thesis by (simp only: n)
qed

end
